theory Spec2Isabelle
  imports Main "HOL-Library.Word"
begin

unbundle bit_operations_syntax

section \<open>ServerId: the 64-bit identifier of a server process (ServerId.h)\<close>

text \<open>
  A \<open>ServerId\<close> wraps one \<open>uint64_t\<close>: the generation number in the upper 32 bits and
  the index number in the lower 32 bits. The accessors \<open>getId\<close>, \<open>indexNumber\<close> and
  \<open>generationNumber\<close> start with \<open>assert(isValid())\<close>; a failed assertion is the
  result \<open>None\<close>.
\<close>

type_synonym uint32_t = "32 word"
type_synonym uint64_t = "64 word"

record ServerId =
  serverId :: uint64_t

text \<open>\<open>enum { INVALID_SERVERID_GENERATION_NUMBER = (uint32_t)-1 }\<close>\<close>

definition INVALID_SERVERID_GENERATION_NUMBER :: uint32_t where
  "INVALID_SERVERID_GENERATION_NUMBER = - 1"

text \<open>The default constructor \<open>ServerId()\<close>.\<close>

definition ServerId_default :: ServerId where
  "ServerId_default =
     \<lparr>serverId = push_bit 32 (ucast INVALID_SERVERID_GENERATION_NUMBER :: uint64_t)\<rparr>"

text \<open>\<open>explicit ServerId(uint64_t id)\<close>\<close>

definition ServerId_of_id :: "uint64_t \<Rightarrow> ServerId" where
  "ServerId_of_id ident = \<lparr>serverId = ident\<rparr>"

text \<open>\<open>ServerId(uint32_t indexNumber, uint32_t generationNumber)\<close>\<close>

definition ServerId_of_parts :: "uint32_t \<Rightarrow> uint32_t \<Rightarrow> ServerId" where
  "ServerId_of_parts indexNo generationNo =
     \<lparr>serverId = push_bit 32 (ucast generationNo :: uint64_t) OR ucast indexNo\<rparr>"

text \<open>The private \<open>_generationNumber()\<close>: \<open>downCast<uint32_t>(serverId >> 32)\<close>.\<close>

definition private_generationNumber :: "ServerId \<Rightarrow> uint32_t" where
  "private_generationNumber x = ucast (drop_bit 32 (serverId x))"

definition isValid :: "ServerId \<Rightarrow> bool" where
  "isValid x \<longleftrightarrow> private_generationNumber x \<noteq> INVALID_SERVERID_GENERATION_NUMBER"

definition getId :: "ServerId \<Rightarrow> uint64_t option" where
  "getId x = (if isValid x then Some (serverId x) else None)"

definition indexNumber :: "ServerId \<Rightarrow> uint32_t option" where
  "indexNumber x = (if isValid x then Some (ucast (serverId x AND 0xffffffff)) else None)"

definition generationNumber :: "ServerId \<Rightarrow> uint32_t option" where
  "generationNumber x = (if isValid x then Some (private_generationNumber x) else None)"

text \<open>\<open>operator==\<close> and \<open>operator!=\<close>.\<close>

definition ServerId_eq :: "ServerId \<Rightarrow> ServerId \<Rightarrow> bool" where
  "ServerId_eq x other =
     (if \<not> isValid x \<and> \<not> isValid other then True
      else serverId x = serverId other)"

definition ServerId_neq :: "ServerId \<Rightarrow> ServerId \<Rightarrow> bool" where
  "ServerId_neq x other \<longleftrightarrow> \<not> ServerId_eq x other"

section \<open>ServerConfig: configuration of a server (ServerConfig.h)\<close>

text \<open>
  \<open>ServiceMask.h\<close> and \<open>Segment.h\<close> are not among the sources. A service mask is
  given by the services it is built from, and \<open>Segment::SEGMENT_SIZE\<close> is a parameter of
  the one constructor that reads it.
\<close>

datatype ServiceType =
  MASTER_SERVICE | BACKUP_SERVICE | COORDINATOR_SERVICE | PING_SERVICE | MEMBERSHIP_SERVICE

type_synonym ServiceMask = "ServiceType set"

record Master =
  logBytes :: uint64_t
  hashTableBytes :: uint64_t
  disableLogCleaner :: bool
  numReplicas :: uint32_t

record Backup =
  inMemory :: bool
  numSegmentFrames :: uint32_t
  segmentSize :: uint32_t
  backup_file :: string
  strategy :: int
  mockSpeed :: uint32_t

record ServerConfig =
  coordinatorLocator :: string
  localLocator :: string
  services :: ServiceMask
  detectFailures :: bool
  pinMemory :: bool
  master :: Master
  backup :: Backup

text \<open>\<open>Master(Testing)\<close>: the configuration for unit tests.\<close>

definition Master_Testing :: Master where
  "Master_Testing =
     \<lparr>logBytes = 32 * 1024 * 1024, hashTableBytes = 1 * 1024 * 1024,
      disableLogCleaner = True, numReplicas = 0\<rparr>"

text \<open>
  \<open>Master()\<close>: every member is value-initialised (\<open>logBytes()\<close>, ..., \<open>numReplicas()\<close>),
  which is zero for the integers and false for the flag.
\<close>

definition Master_Execution :: Master where
  "Master_Execution =
     \<lparr>logBytes = 0, hashTableBytes = 0, disableLogCleaner = False, numReplicas = 0\<rparr>"

definition Backup_Testing :: Backup where
  "Backup_Testing =
     \<lparr>inMemory = True, numSegmentFrames = 4, segmentSize = 64 * 1024, backup_file = [],
      strategy = 1, mockSpeed = 100\<rparr>"

definition Backup_Execution :: "uint32_t \<Rightarrow> Backup" where
  "Backup_Execution SEGMENT_SIZE =
     \<lparr>inMemory = False, numSegmentFrames = 512, segmentSize = SEGMENT_SIZE,
      backup_file = ''/var/tmp/backup.log'', strategy = 1, mockSpeed = 0\<rparr>"

text \<open>\<open>ServerConfig(Testing)\<close>, returned by \<open>forTesting()\<close>.\<close>

definition forTesting :: ServerConfig where
  "forTesting =
     \<lparr>coordinatorLocator = [], localLocator = [],
      services = {MASTER_SERVICE, BACKUP_SERVICE, MEMBERSHIP_SERVICE},
      detectFailures = False, pinMemory = False,
      master = Master_Testing, backup = Backup_Testing\<rparr>"

text \<open>\<open>ServerConfig()\<close>, returned by \<open>forExecution()\<close>.\<close>

definition forExecution :: "uint32_t \<Rightarrow> ServerConfig" where
  "forExecution SEGMENT_SIZE =
     \<lparr>coordinatorLocator = [], localLocator = [],
      services = {MASTER_SERVICE, BACKUP_SERVICE, PING_SERVICE, MEMBERSHIP_SERVICE},
      detectFailures = True, pinMemory = True,
      master = Master_Execution, backup = Backup_Execution SEGMENT_SIZE\<rparr>"

section \<open>FailureDetector (FailureDetector.cc)\<close>

text \<open>
  The detector keeps three fields about a suspected stale server list, beside its own id.
  Its collaborators (the server tracker, the server list, the ping client, the coordinator
  client and the cycle counter) are outside the detector: what each of them answers during
  one call is given by a \<open>world\<close>. An RPC either returns a value or throws one of the
  exception classes the detector names; the classes are taken to be unrelated, so a
  \<open>catch\<close> clause handles exactly its own class.
\<close>

datatype exn = ServerListException | TimeoutException | TransportException

datatype rpc = Ping string | HintServerDown ServerId | RequestServerList ServerId

datatype logLevel = TEST | NOTICE | WARNING

type_synonym logLine = "logLevel \<times> string"

record FailureDetector =
  ourServerId :: ServerId
  staleServerListSuspected :: bool
  staleServerListVersion :: uint64_t
  staleServerListTimestamp :: uint64_t

text \<open>The constructor: nothing is suspected at first.\<close>

definition FailureDetector_new :: "ServerId \<Rightarrow> FailureDetector" where
  "FailureDetector_new sid =
     \<lparr>ourServerId = sid, staleServerListSuspected = False,
      staleServerListVersion = 0, staleServerListTimestamp = 0\<rparr>"

text \<open>
  \<open>randomServer\<close> is what \<open>serverTracker.getRandomServerIdWithService(PING_SERVICE)\<close>
  returns; \<open>getLocator\<close> is \<open>None\<close> when \<open>serverList.getLocator\<close> throws its
  \<open>ServerListException\<close>; \<open>ping\<close> carries the server list version of the reply.
\<close>

record world =
  randomServer :: ServerId
  getLocator :: "string option"
  ping :: "exn + uint64_t"
  hintServerDown :: "exn + unit"
  requestServerList :: "exn + unit"
  getVersion :: uint64_t
  rdtsc :: uint64_t

text \<open>
  The result of a call: the detector afterwards, the RPCs issued in order (whether or not
  they succeeded), the log lines, and the exception that left the call, if any.
\<close>

record outcome =
  detector :: FailureDetector
  sent :: "rpc list"
  logged :: "logLine list"
  raised :: "exn option"

definition alertCoordinator :: "world \<Rightarrow> ServerId \<Rightarrow> string \<Rightarrow> FailureDetector \<Rightarrow> outcome" where
  "alertCoordinator w sid locator d =
     (case hintServerDown w of
        Inr _ \<Rightarrow>
          \<lparr>detector = d, sent = [HintServerDown sid],
           logged = [(WARNING, ''Ping timeout to server id'')], raised = None\<rparr>
      | Inl TransportException \<Rightarrow>
          \<lparr>detector = d, sent = [HintServerDown sid],
           logged = [(WARNING, ''Ping timeout to server id''),
                     (WARNING, ''Hint server down failed. Maybe the network is disconnected'')],
           raised = None\<rparr>
      | Inl e \<Rightarrow>
          \<lparr>detector = d, sent = [HintServerDown sid],
           logged = [(WARNING, ''Ping timeout to server id'')], raised = Some e\<rparr>)"

definition checkServerListVersion :: "world \<Rightarrow> uint64_t \<Rightarrow> FailureDetector \<Rightarrow> FailureDetector" where
  "checkServerListVersion w observedVersion d =
     (if staleServerListSuspected d then d
      else let currentVersion = getVersion w in
        if observedVersion \<le> currentVersion then d
        else d\<lparr>staleServerListSuspected := True,
               staleServerListVersion := currentVersion,
               staleServerListTimestamp := rdtsc w\<rparr>)"

text \<open>
  \<open>Cycles::toNanoseconds\<close> and the constant \<open>STALE_SERVER_LIST_USECS\<close> are declared in
  headers that are not among the sources; both are parameters. The product
  \<open>STALE_SERVER_LIST_USECS * 1000\<close> is compared with a \<open>uint64_t\<close>.
\<close>

definition checkForStaleServerList ::
    "(uint64_t \<Rightarrow> uint64_t) \<Rightarrow> uint64_t \<Rightarrow> world \<Rightarrow> FailureDetector \<Rightarrow> outcome" where
  "checkForStaleServerList toNanoseconds STALE_SERVER_LIST_USECS w d =
     (if \<not> staleServerListSuspected d then
        \<lparr>detector = d, sent = [], logged = [(TEST, ''Nothing to do.'')], raised = None\<rparr>
      else let currentVersion = getVersion w in
        if currentVersion > staleServerListVersion d then
          \<lparr>detector = d\<lparr>staleServerListSuspected := False\<rparr>, sent = [],
           logged = [(TEST, ''Version advanced. Suspicion suspended.'')], raised = None\<rparr>
        else let deltaTicks = rdtsc w - staleServerListTimestamp d in
          if toNanoseconds deltaTicks \<ge> STALE_SERVER_LIST_USECS * 1000 then
            (case requestServerList w of
               Inr _ \<Rightarrow>
                 \<lparr>detector = d\<lparr>staleServerListSuspected := False\<rparr>,
                  sent = [RequestServerList (ourServerId d)],
                  logged = [(WARNING, ''Stale server list detected. Requesting new list push!'')],
                  raised = None\<rparr>
             | Inl TransportException \<Rightarrow>
                 \<lparr>detector = d, sent = [RequestServerList (ourServerId d)],
                  logged = [(WARNING, ''Stale server list detected. Requesting new list push!''),
                            (WARNING, ''Request to coordinator failed'')],
                  raised = None\<rparr>
             | Inl e \<Rightarrow>
                 \<lparr>detector = d, sent = [RequestServerList (ourServerId d)],
                  logged = [(WARNING, ''Stale server list detected. Requesting new list push!'')],
                  raised = Some e\<rparr>)
          else \<lparr>detector = d, sent = [], logged = [], raised = None\<rparr>)"

text \<open>
  The three \<open>catch\<close> clauses of \<open>pingRandomServer\<close>, applied to an exception thrown in
  the \<open>try\<close> block after the RPCs \<open>issued\<close>; \<open>locator\<close> is the empty string when
  \<open>getLocator\<close> threw.
\<close>

definition catchPing ::
    "world \<Rightarrow> ServerId \<Rightarrow> string \<Rightarrow> rpc list \<Rightarrow> exn \<Rightarrow> FailureDetector \<Rightarrow> outcome" where
  "catchPing w pingee locator issued e d =
     (case e of
        ServerListException \<Rightarrow>
          \<lparr>detector = d, sent = issued,
           logged = [(NOTICE, ''Tried to ping locator, but id was stale'')], raised = None\<rparr>
      | TimeoutException \<Rightarrow>
          (let a = alertCoordinator w pingee locator d in a\<lparr>sent := issued @ sent a\<rparr>)
      | TransportException \<Rightarrow>
          (let a = alertCoordinator w pingee locator d in a\<lparr>sent := issued @ sent a\<rparr>))"

definition pingRandomServer :: "world \<Rightarrow> FailureDetector \<Rightarrow> outcome" where
  "pingRandomServer w d =
     (let pingee = randomServer w in
      if \<not> isValid pingee \<or> ServerId_eq pingee (ourServerId d) then
        \<lparr>detector = d, sent = [], logged = [], raised = None\<rparr>
      else
        (case getLocator w of
           None \<Rightarrow> catchPing w pingee [] [] ServerListException d
         | Some locator \<Rightarrow>
             (case ping w of
                Inl e \<Rightarrow> catchPing w pingee locator [Ping locator] e d
              | Inr serverListVersion \<Rightarrow>
                  \<lparr>detector = checkServerListVersion w serverListVersion d,
                   sent = [Ping locator],
                   logged = [(TEST, ''Ping succeeded to server'')], raised = None\<rparr>)))"

text \<open>
  Successive calls of \<open>checkForStaleServerList\<close>, one world per call, as the detector's
  loop makes them while no ping reply starts a new suspicion. An exception that leaves a
  call ends the run.
\<close>

fun checkRepeatedly ::
    "(uint64_t \<Rightarrow> uint64_t) \<Rightarrow> uint64_t \<Rightarrow> world list \<Rightarrow> FailureDetector \<Rightarrow> outcome" where
  "checkRepeatedly toNanoseconds usecs [] d =
     \<lparr>detector = d, sent = [], logged = [], raised = None\<rparr>"
| "checkRepeatedly toNanoseconds usecs (w # ws) d =
     (let first = checkForStaleServerList toNanoseconds usecs w d in
      if raised first \<noteq> None then first
      else let rest = checkRepeatedly toNanoseconds usecs ws (detector first) in
        rest\<lparr>sent := sent first @ sent rest, logged := logged first @ logged rest\<rparr>)"

text \<open>Concrete inputs: a cycle counter of one tick per nanosecond, and example states.\<close>

definition oneTickPerNanosecond :: "uint64_t \<Rightarrow> uint64_t" where
  "oneTickPerNanosecond ticks = ticks"

definition suspiciousDetector :: FailureDetector where
  "suspiciousDetector =
     \<lparr>ourServerId = ServerId_of_parts 1 0, staleServerListSuspected = True,
      staleServerListVersion = 7, staleServerListTimestamp = 1000\<rparr>"

text \<open>
  A world at tick \<open>now\<close> in which the server list has version \<open>v\<close>, the tracker picked
  server \<open>(2, 0)\<close>, and the ping and the coordinator answer as given.
\<close>

definition worldAt ::
    "uint64_t \<Rightarrow> uint64_t \<Rightarrow> exn + uint64_t \<Rightarrow> exn + unit \<Rightarrow> world" where
  "worldAt now v pingReply coordinatorReply =
     \<lparr>randomServer = ServerId_of_parts 2 0, getLocator = Some ''mock:host=two'',
      ping = pingReply, hintServerDown = coordinatorReply,
      requestServerList = coordinatorReply, getVersion = v, rdtsc = now\<rparr>"

section \<open>ServerTracker: the change tracker\<close>

text \<open>
  \<open>ServerTracker.h\<close> and \<open>ServerList.h\<close> are not among the sources; only the unit tests
  of the tracker are (\<open>ServerTrackerTest.cc\<close>). The definitions of this section follow
  section 4.1 of the specification, with the field names the tests read.
\<close>

datatype ServerChangeEvent = SERVER_ADDED | SERVER_REMOVED

text \<open>
  Modelled from the spec: \<open>ServerDetails\<close>, the identity of a directory entry (id,
  locator and service mask).
\<close>

record ServerDetails =
  detailsServerId :: ServerId
  serviceLocator :: string
  detailsServices :: ServiceMask

text \<open>
  Modelled from the spec: the default-constructed \<open>ServerDetails()\<close>, which the tests
  observe in a cleared slot: an invalid id, an empty locator and no service.
\<close>

definition ServerDetails_default :: ServerDetails where
  "ServerDetails_default =
     \<lparr>detailsServerId = ServerId_default, serviceLocator = [], detailsServices = {}\<rparr>"

text \<open>
  Modelled from the spec: a slot of the tracker's vector, the entry's identity with the
  subscriber's annotation; \<open>None\<close> is the null pointer.
\<close>

record 'a ServerDetailsWithPointer =
  server :: ServerDetails
  pointer :: "'a option"

definition emptySlot :: "'a ServerDetailsWithPointer" where
  "emptySlot = \<lparr>server = ServerDetails_default, pointer = None\<rparr>"

text \<open>
  Modelled from the spec: the tracker. \<open>serverList\<close> is the vector of slots, indexed by
  the index number of the ids; \<open>changes\<close> is the FIFO of pending events, oldest first;
  \<open>lastRemovedIndex\<close> is the slot of the \<open>REMOVED\<close> event handed out by the last
  \<open>get_change\<close>, if any (the tests read it as a 32-bit value, all ones when there is
  none); \<open>numberOfServers\<close> is what \<open>size()\<close> returns; \<open>eventCallback\<close> tells whether
  a "changes pending" callback is installed and \<open>callbacksFired\<close> counts its invocations.
\<close>

record 'a ServerTracker =
  serverList :: "'a ServerDetailsWithPointer list"
  changes :: "(ServerDetails \<times> ServerChangeEvent) list"
  lastRemovedIndex :: "nat option"
  numberOfServers :: nat
  eventCallback :: bool
  callbacksFired :: nat

definition newTracker :: "bool \<Rightarrow> 'a ServerTracker" where
  "newTracker callback =
     \<lparr>serverList = [], changes = [], lastRemovedIndex = None, numberOfServers = 0,
      eventCallback = callback, callbacksFired = 0\<rparr>"

text \<open>Modelled from the spec: the entry's index, the lower 32 bits of its id.\<close>

definition slotIndex :: "ServerId \<Rightarrow> nat" where
  "slotIndex sid = unat (ucast (serverId sid AND 0xffffffff) :: uint32_t)"

text \<open>
  Modelled from the spec: \<open>enqueue(entry, event)\<close> appends the pair to the FIFO; for
  \<open>ADDED\<close> it reserves a slot at the entry's index, growing the vector with empty slots
  if needed; it invokes the callback when there is one.
\<close>

definition enqueueChange ::
    "ServerDetails \<Rightarrow> ServerChangeEvent \<Rightarrow> 'a ServerTracker \<Rightarrow> 'a ServerTracker" where
  "enqueueChange entry event t =
     (let index = slotIndex (detailsServerId entry);
          slots = serverList t;
          grown = (if event = SERVER_ADDED \<and> length slots \<le> index
                   then slots @ replicate (index + 1 - length slots) emptySlot
                   else slots)
      in t\<lparr>serverList := grown,
            changes := changes t @ [(entry, event)],
            callbacksFired := (if eventCallback t then callbacksFired t + 1
                               else callbacksFired t)\<rparr>)"

text \<open>
  Modelled from the spec: the first step of \<open>get_change\<close>. After a \<open>REMOVED\<close> was handed
  out, the next call clears the slot's identity and annotation; an annotation the
  subscriber left non-null is reported with a warning and cleared all the same.
\<close>

definition clearLastRemoved :: "'a ServerTracker \<Rightarrow> logLine list \<times> 'a ServerTracker" where
  "clearLastRemoved t =
     (case lastRemovedIndex t of
        None \<Rightarrow> ([], t)
      | Some i \<Rightarrow>
          (if i < length (serverList t) \<and> pointer (serverList t ! i) \<noteq> None
           then [(WARNING, ''User of this ServerTracker did not NULL out previous pointer'')]
           else [],
           t\<lparr>serverList := (serverList t)[i := emptySlot], lastRemovedIndex := None\<rparr>))"

text \<open>
  The result of \<open>get_change\<close>: the event handed out (\<open>None\<close> when the call returns
  false), the warnings logged and the tracker afterwards.
\<close>

record 'a getChangeResult =
  handed :: "(ServerDetails \<times> ServerChangeEvent) option"
  warnings :: "logLine list"
  tracker :: "'a ServerTracker"

text \<open>
  Modelled from the spec: \<open>get_change\<close> pops the oldest pending event. Consuming an
  \<open>ADDED\<close> stores the entry's identity in its slot and the size grows; consuming a
  \<open>REMOVED\<close> keeps the slot until the next call and the size shrinks.
\<close>

definition getChange :: "'a ServerTracker \<Rightarrow> 'a getChangeResult" where
  "getChange t =
     (let (logs, t1) = clearLastRemoved t in
      case changes t1 of
        [] \<Rightarrow> \<lparr>handed = None, warnings = logs, tracker = t1\<rparr>
      | (entry, event) # rest \<Rightarrow>
          (let index = slotIndex (detailsServerId entry) in
           case event of
             SERVER_ADDED \<Rightarrow>
               \<lparr>handed = Some (entry, event), warnings = logs,
                tracker = t1\<lparr>changes := rest,
                  serverList := (serverList t1)[index := (serverList t1 ! index)\<lparr>server := entry\<rparr>],
                  numberOfServers := numberOfServers t1 + 1\<rparr>\<rparr>
           | SERVER_REMOVED \<Rightarrow>
               \<lparr>handed = Some (entry, event), warnings = logs,
                tracker = t1\<lparr>changes := rest,
                  lastRemovedIndex := Some index,
                  numberOfServers := numberOfServers t1 - 1\<rparr>\<rparr>))"


text \<open>
  Modelled from the spec: an entry is currently present in the subscriber's view when its
  slot holds a valid id and its \<open>REMOVED\<close> event has not been handed out.
\<close>

definition present :: "'a ServerTracker \<Rightarrow> nat \<Rightarrow> bool" where
  "present t i \<longleftrightarrow>
     i < length (serverList t)
     \<and> isValid (detailsServerId (server (serverList t ! i)))
     \<and> lastRemovedIndex t \<noteq> Some i"

datatype trackerError = UnknownServer

text \<open>
  Modelled from the spec: \<open>annotation(server_id)\<close> gives access to the annotation of the
  entry; it fails with \<open>UnknownServer\<close> if the id does not occupy its slot.
\<close>

definition occupies :: "'a ServerTracker \<Rightarrow> ServerId \<Rightarrow> bool" where
  "occupies t sid \<longleftrightarrow>
     isValid sid \<and> slotIndex sid < length (serverList t)
     \<and> ServerId_eq (detailsServerId (server (serverList t ! slotIndex sid))) sid"


definition setAnnotation ::
    "ServerId \<Rightarrow> 'a option \<Rightarrow> 'a ServerTracker \<Rightarrow> trackerError + 'a ServerTracker" where
  "setAnnotation sid p t =
     (if occupies t sid
      then Inr (t\<lparr>serverList :=
                    (serverList t)[slotIndex sid := (serverList t ! slotIndex sid)\<lparr>pointer := p\<rparr>]\<rparr>)
      else Inl UnknownServer)"

text \<open>
  Modelled from the spec: the ids of the currently present entries whose service mask
  includes the \<open>wanted\<close> mask, in slot order.
\<close>

definition matching :: "'a ServerTracker \<Rightarrow> ServiceMask \<Rightarrow> ServerId list" where
  "matching t wanted =
     map (\<lambda>i. detailsServerId (server (serverList t ! i)))
       (filter (\<lambda>i. present t i \<and> wanted \<subseteq> detailsServices (server (serverList t ! i)))
          [0 ..< length (serverList t)])"

text \<open>
  Modelled from the spec: \<open>random_with_service(mask)\<close> selects uniformly among the
  matching entries and returns the invalid id when there is none. \<open>random\<close> is the number
  drawn from the random generator.
\<close>

definition getRandomServerIdWithService ::
    "nat \<Rightarrow> ServiceMask \<Rightarrow> 'a ServerTracker \<Rightarrow> ServerId" where
  "getRandomServerIdWithService random wanted t =
     (let candidates = matching t wanted in
      if candidates = [] then ServerId_default
      else candidates ! (random mod length candidates))"


definition masterOne :: ServerDetails where
  "masterOne = \<lparr>detailsServerId = ServerId_of_parts 0 1, serviceLocator = [],
     detailsServices = {MASTER_SERVICE}\<rparr>"

definition masterTwo :: ServerDetails where
  "masterTwo = \<lparr>detailsServerId = ServerId_of_parts 1 1, serviceLocator = [],
     detailsServices = {MASTER_SERVICE}\<rparr>"



definition consume :: "'a ServerTracker \<Rightarrow> 'a ServerTracker" where
  "consume t = tracker (getChange t)"


definition oneMaster :: "nat ServerTracker" where
  "oneMaster = consume (enqueueChange masterOne SERVER_ADDED (newTracker False))"

text \<open>Two masters added and consumed, then both removed and both removals consumed.\<close>

definition mastersRemoved :: "nat ServerTracker" where
  "mastersRemoved =
     consume (consume (enqueueChange masterTwo SERVER_REMOVED
       (enqueueChange masterOne SERVER_REMOVED
          (consume (enqueueChange masterTwo SERVER_ADDED oneMaster)))))"



section \<open>Properties of ServerId\<close>

lemma minus_one_32: "(- 1 :: uint32_t) = 0xffffffff"
  by simp

lemma generation_of_parts:
  "private_generationNumber (ServerId_of_parts i g) = g"
  unfolding private_generationNumber_def ServerId_of_parts_def
  by (simp, rule bit_word_eqI) (auto simp: bit_simps dest: bit_imp_le_length)

lemma index_of_parts:
  "(ucast ((push_bit 32 (ucast g :: uint64_t) OR ucast i) AND 0xffffffff) :: uint32_t) = i"
proof -
  have m: "(0xffffffff :: uint64_t) = mask 32" by (simp add: mask_eq_exp_minus_1)
  show ?thesis unfolding m
    by (rule bit_word_eqI) (auto simp: bit_simps)
qed

lemma isValid_of_parts:
  "isValid (ServerId_of_parts i g) \<longleftrightarrow> g \<noteq> 0xffffffff"
  unfolding isValid_def generation_of_parts INVALID_SERVERID_GENERATION_NUMBER_def
  by (simp only: minus_one_32)

lemma default_is_parts: "ServerId_default = ServerId_of_parts 0 0xffffffff"
  by (simp only: ServerId_default_def ServerId_of_parts_def
      INVALID_SERVERID_GENERATION_NUMBER_def minus_one_32) simp

lemma not_isValid_default: "\<not> isValid ServerId_default"
  by (simp only: default_is_parts isValid_of_parts)

lemma ServerId_eq_refl: "ServerId_eq a a"
  by (simp add: ServerId_eq_def)

lemma ServerId_eq_sym: "ServerId_eq a b \<Longrightarrow> ServerId_eq b a"
  by (auto simp: ServerId_eq_def split: if_splits)

lemma same_bits_same_validity: "serverId a = serverId b \<Longrightarrow> isValid a = isValid b"
  by (simp add: isValid_def private_generationNumber_def)

lemma ServerId_eq_trans: "ServerId_eq a b \<Longrightarrow> ServerId_eq b c \<Longrightarrow> ServerId_eq a c"
  unfolding ServerId_eq_def
  by (metis same_bits_same_validity)

text \<open>
  C7. For every valid ServerId \<open>x\<close>, \<open>getId\<close> returns its 64-bit form, and the ServerId
  constructed from that value is \<open>x\<close> again, so it compares equal to \<open>x\<close> under
  \<open>operator==\<close>.
\<close>

theorem getId_roundtrip:
  "isValid x \<Longrightarrow>
     \<exists>v. getId x = Some v \<and> ServerId_of_id v = x \<and> ServerId_eq (ServerId_of_id v) x"
  by (simp add: getId_def ServerId_of_id_def ServerId_eq_def)

theorem getId_roundtrip_witness:
  "isValid (ServerId_of_parts 2 0) \<and>
   (\<exists>v. getId (ServerId_of_parts 2 0) = Some v \<and> ServerId_of_id v = ServerId_of_parts 2 0 \<and>
        ServerId_eq (ServerId_of_id v) (ServerId_of_parts 2 0))"
proof -
  have h: "isValid (ServerId_of_parts 2 0)"
    by (simp add: isValid_of_parts)
  show ?thesis using h getId_roundtrip [OF h] by simp
qed

text \<open>
  C8, as stated, fails for the generation number \<open>0xFFFFFFFF\<close>: the accessors assert
  \<open>isValid()\<close> before they read the field, so on the ServerId built from index 5 and
  generation \<open>0xFFFFFFFF\<close> none of them returns a value.
\<close>

theorem accessors_of_invalid_counterexample:
  "\<not> (getId (ServerId_of_parts 5 0xffffffff)
         = Some (push_bit 32 (ucast (0xffffffff :: uint32_t)) OR ucast (5 :: uint32_t))
      \<and> indexNumber (ServerId_of_parts 5 0xffffffff) = Some 5
      \<and> generationNumber (ServerId_of_parts 5 0xffffffff) = Some 0xffffffff)"
  by (simp add: getId_def isValid_of_parts)

text \<open>
  C8, amended. For every 32-bit index \<open>i\<close> and generation \<open>g\<close> the ServerId constructed
  from \<open>(i, g)\<close> stores the 64-bit value \<open>(g << 32) | i\<close>, and it is invalid exactly when
  \<open>g = 0xFFFFFFFF\<close>; the default-constructed ServerId is invalid. When
  \<open>g \<noteq> 0xFFFFFFFF\<close>, \<open>getId()\<close> returns \<open>(g << 32) | i\<close>, \<open>indexNumber()\<close> returns \<open>i\<close>
  and \<open>generationNumber()\<close> returns \<open>g\<close>; when \<open>g = 0xFFFFFFFF\<close> the three accessors
  fail their assertion.
\<close>

theorem ServerId_of_parts_encoding:
  "serverId (ServerId_of_parts i g) = (push_bit 32 (ucast g) OR ucast i)
   \<and> (isValid (ServerId_of_parts i g) \<longleftrightarrow> g \<noteq> 0xffffffff)
   \<and> \<not> isValid ServerId_default
   \<and> (g \<noteq> 0xffffffff \<longrightarrow>
        getId (ServerId_of_parts i g) = Some (push_bit 32 (ucast g) OR ucast i)
        \<and> indexNumber (ServerId_of_parts i g) = Some i
        \<and> generationNumber (ServerId_of_parts i g) = Some g)
   \<and> (g = 0xffffffff \<longrightarrow>
        getId (ServerId_of_parts i g) = None
        \<and> indexNumber (ServerId_of_parts i g) = None
        \<and> generationNumber (ServerId_of_parts i g) = None)"
proof -
  have raw: "serverId (ServerId_of_parts i g) = (push_bit 32 (ucast g) OR ucast i)"
    by (simp add: ServerId_of_parts_def)
  have idx: "isValid (ServerId_of_parts i g) \<Longrightarrow> indexNumber (ServerId_of_parts i g) = Some i"
    unfolding indexNumber_def raw by (simp only: index_of_parts if_True)
  show ?thesis
    using raw idx not_isValid_default
    by (simp add: getId_def indexNumber_def generationNumber_def isValid_of_parts
        generation_of_parts)
qed

theorem ServerId_of_parts_encoding_witness:
  "(7 :: uint32_t) \<noteq> 0xffffffff
   \<and> getId (ServerId_of_parts 3 7) = Some (push_bit 32 (ucast (7 :: uint32_t)) OR ucast (3 :: uint32_t))
   \<and> indexNumber (ServerId_of_parts 3 7) = Some 3
   \<and> generationNumber (ServerId_of_parts 3 7) = Some 7
   \<and> isValid (ServerId_of_parts 3 7)
   \<and> getId (ServerId_of_parts 3 0xffffffff) = None
   \<and> indexNumber (ServerId_of_parts 3 0xffffffff) = None
   \<and> generationNumber (ServerId_of_parts 3 0xffffffff) = None
   \<and> \<not> isValid (ServerId_of_parts 3 0xffffffff)"
  using ServerId_of_parts_encoding [of 3 7] ServerId_of_parts_encoding [of 3 "0xffffffff"]
  by simp

text \<open>
  C10. Two invalid ServerIds compare equal under \<open>operator==\<close> whatever their index bits
  are; two valid ServerIds compare equal exactly when their 64-bit values are equal;
  \<open>operator!=\<close> is the negation of \<open>operator==\<close>; and \<open>operator==\<close> is reflexive,
  symmetric and transitive.
\<close>

theorem ServerId_eq_equivalence:
  "(\<not> isValid a \<and> \<not> isValid b \<longrightarrow> ServerId_eq a b)
   \<and> (isValid a \<and> isValid b \<longrightarrow> (ServerId_eq a b \<longleftrightarrow> serverId a = serverId b))
   \<and> (ServerId_neq a b \<longleftrightarrow> \<not> ServerId_eq a b)
   \<and> ServerId_eq a a
   \<and> (ServerId_eq a b \<longrightarrow> ServerId_eq b a)
   \<and> (ServerId_eq a b \<and> ServerId_eq b c \<longrightarrow> ServerId_eq a c)"
proof -
  have "\<not> isValid a \<and> \<not> isValid b \<longrightarrow> ServerId_eq a b"
    by (simp add: ServerId_eq_def)
  moreover have "isValid a \<and> isValid b \<longrightarrow> (ServerId_eq a b \<longleftrightarrow> serverId a = serverId b)"
    by (simp add: ServerId_eq_def)
  moreover have "ServerId_neq a b \<longleftrightarrow> \<not> ServerId_eq a b"
    by (simp add: ServerId_neq_def)
  ultimately show ?thesis
    using ServerId_eq_refl ServerId_eq_sym ServerId_eq_trans by blast
qed

text \<open>
  The equality is not bitwise: the invalid ServerIds with index 1 and index 2 hold
  different 64-bit values and compare equal, while the valid ServerIds \<open>(1, 4)\<close> and
  \<open>(2, 4)\<close> compare unequal.
\<close>

theorem ServerId_eq_equivalence_witness:
  "\<not> isValid (ServerId_of_parts 1 0xffffffff) \<and> \<not> isValid (ServerId_of_parts 2 0xffffffff)
   \<and> serverId (ServerId_of_parts 1 0xffffffff) \<noteq> serverId (ServerId_of_parts 2 0xffffffff)
   \<and> ServerId_eq (ServerId_of_parts 1 0xffffffff) (ServerId_of_parts 2 0xffffffff)
   \<and> ServerId_eq (ServerId_of_parts 2 0xffffffff) (ServerId_of_parts 1 0xffffffff)
   \<and> isValid (ServerId_of_parts 1 4) \<and> isValid (ServerId_of_parts 2 4)
   \<and> \<not> ServerId_eq (ServerId_of_parts 1 4) (ServerId_of_parts 2 4)
   \<and> ServerId_neq (ServerId_of_parts 1 4) (ServerId_of_parts 2 4)"
proof -
  have inv: "\<not> isValid (ServerId_of_parts 1 0xffffffff)" "\<not> isValid (ServerId_of_parts 2 0xffffffff)"
    by (simp_all add: isValid_of_parts)
  have val: "isValid (ServerId_of_parts 1 4)" "isValid (ServerId_of_parts 2 4)"
    by (simp_all add: isValid_of_parts)
  have d1: "serverId (ServerId_of_parts 1 0xffffffff) \<noteq> serverId (ServerId_of_parts 2 0xffffffff)"
    by (simp add: ServerId_of_parts_def)
  have d2: "serverId (ServerId_of_parts 1 4) \<noteq> serverId (ServerId_of_parts 2 4)"
    by (simp add: ServerId_of_parts_def)
  show ?thesis
    using inv val d1 d2
      ServerId_eq_equivalence [of "ServerId_of_parts 1 0xffffffff" "ServerId_of_parts 2 0xffffffff"
        "ServerId_of_parts 1 0xffffffff"]
      ServerId_eq_equivalence [of "ServerId_of_parts 1 4" "ServerId_of_parts 2 4" "ServerId_of_parts 1 4"]
    by simp
qed

section \<open>Properties of ServerConfig\<close>

text \<open>
  C9, as stated, fails: the configuration returned by \<open>forExecution()\<close> holds
  \<open>numReplicas = 0\<close>, not 3, because \<open>Master()\<close> value-initialises the field.
\<close>

theorem numReplicas_counterexample:
  "\<not> (numReplicas (master (forExecution 8388608)) = 3 \<and> numReplicas (master forTesting) = 0)"
  by (simp add: forExecution_def Master_Execution_def)

text \<open>
  C9, amended. \<open>numReplicas\<close> is 0 both in the configuration returned by
  \<open>ServerConfig::forExecution\<close> and in the one returned by \<open>ServerConfig::forTesting\<close>.
\<close>

theorem numReplicas_defaults:
  "numReplicas (master (forExecution SEGMENT_SIZE)) = 0 \<and> numReplicas (master forTesting) = 0"
  by (simp add: forExecution_def forTesting_def Master_Execution_def Master_Testing_def)

section \<open>Properties of the FailureDetector\<close>

lemma checkRepeatedly_unsuspected:
  "\<not> staleServerListSuspected d \<Longrightarrow>
     checkRepeatedly toNs usecs ws d =
       \<lparr>detector = d, sent = [],
        logged = replicate (length ws) (TEST, ''Nothing to do.''), raised = None\<rparr>"
  by (induction ws) (simp_all add: checkForStaleServerList_def)

lemma checkForStaleServerList_advanced:
  "staleServerListSuspected d \<Longrightarrow> staleServerListVersion d < getVersion w \<Longrightarrow>
     checkForStaleServerList toNs usecs w d =
       \<lparr>detector = d\<lparr>staleServerListSuspected := False\<rparr>, sent = [],
        logged = [(TEST, ''Version advanced. Suspicion suspended.'')], raised = None\<rparr>"
  by (simp add: checkForStaleServerList_def)

lemma checkForStaleServerList_waiting:
  "staleServerListSuspected d \<Longrightarrow> \<not> staleServerListVersion d < getVersion w \<Longrightarrow>
   toNs (rdtsc w - staleServerListTimestamp d) < usecs * 1000 \<Longrightarrow>
     checkForStaleServerList toNs usecs w d =
       \<lparr>detector = d, sent = [], logged = [], raised = None\<rparr>"
  by (simp add: checkForStaleServerList_def Let_def not_le [symmetric])

lemma checkRepeatedly_advanced:
  "staleServerListSuspected d \<Longrightarrow> staleServerListVersion d < getVersion w \<Longrightarrow>
     sent (checkRepeatedly toNs usecs (w # post) d) = []
     \<and> raised (checkRepeatedly toNs usecs (w # post) d) = None
     \<and> detector (checkRepeatedly toNs usecs (w # post) d) = d\<lparr>staleServerListSuspected := False\<rparr>"
  by (simp add: checkForStaleServerList_advanced checkRepeatedly_unsuspected)

text \<open>
  How a suspicion begins: a ping reply reports version 10 at tick 1000 while the local
  list is at version 7. The detector records the local version and the time.
\<close>

lemma suspiciousDetector_reached:
  "checkServerListVersion (worldAt 1000 7 (Inr 10) (Inr ())) 10
     (FailureDetector_new (ServerId_of_parts 1 0)) = suspiciousDetector"
  by (simp add: checkServerListVersion_def worldAt_def FailureDetector_new_def
      suspiciousDetector_def)

lemma checkServerListVersion_suspected:
  "staleServerListSuspected d \<Longrightarrow> checkServerListVersion w observed d = d"
  by (simp add: checkServerListVersion_def)

text \<open>
  C1, as stated, fails when the coordinator call raises a transport error: the flag is
  cleared inside the \<open>try\<close> block, after the call, so the exception skips it. Here the
  detector suspects version 7 since tick 1000, the list is still at version 7 at tick
  600001000 (600 ms later, timeout 500 ms) and the coordinator is unreachable: one
  request is sent and the detector is still suspicious.
\<close>

theorem stale_request_failure_counterexample:
  "staleServerListSuspected suspiciousDetector
   \<and> \<not> staleServerListVersion suspiciousDetector
         < getVersion (worldAt 600001000 7 (Inr 10) (Inl TransportException))
   \<and> 500000 * 1000 \<le> oneTickPerNanosecond
         (rdtsc (worldAt 600001000 7 (Inr 10) (Inl TransportException))
            - staleServerListTimestamp suspiciousDetector)
   \<and> sent (checkForStaleServerList oneTickPerNanosecond 500000
         (worldAt 600001000 7 (Inr 10) (Inl TransportException)) suspiciousDetector)
       = [RequestServerList (ServerId_of_parts 1 0)]
   \<and> staleServerListSuspected (detector (checkForStaleServerList oneTickPerNanosecond 500000
         (worldAt 600001000 7 (Inr 10) (Inl TransportException)) suspiciousDetector))"
  by (simp add: checkForStaleServerList_def suspiciousDetector_def worldAt_def
      oneTickPerNanosecond_def)

text \<open>
  C1, amended. When \<open>checkForStaleServerList\<close> runs on a suspicious detector after the
  timeout has elapsed since the suspicion timestamp and the local version has not advanced
  past the recorded one, it sends exactly one \<open>request_server_list\<close> to the coordinator
  and returns normally whether the call succeeds or raises a transport error; the
  suspicion flag is cleared when the call succeeds and stays set when it raises a
  transport error. Nothing else in the detector changes.
\<close>

theorem checkForStaleServerList_timeout:
  assumes "staleServerListSuspected d"
    and "\<not> staleServerListVersion d < getVersion w"
    and "usecs * 1000 \<le> toNs (rdtsc w - staleServerListTimestamp d)"
    and "requestServerList w = Inr () \<or> requestServerList w = Inl TransportException"
  shows "sent (checkForStaleServerList toNs usecs w d) = [RequestServerList (ourServerId d)]
     \<and> raised (checkForStaleServerList toNs usecs w d) = None
     \<and> detector (checkForStaleServerList toNs usecs w d)
         = d\<lparr>staleServerListSuspected := (requestServerList w = Inl TransportException)\<rparr>"
  using assms by (auto simp: checkForStaleServerList_def)

theorem checkForStaleServerList_timeout_witness:
  "sent (checkForStaleServerList oneTickPerNanosecond 500000
         (worldAt 600001000 7 (Inr 10) (Inr ())) suspiciousDetector)
       = [RequestServerList (ServerId_of_parts 1 0)]
   \<and> \<not> staleServerListSuspected (detector (checkForStaleServerList oneTickPerNanosecond 500000
         (worldAt 600001000 7 (Inr 10) (Inr ())) suspiciousDetector))
   \<and> sent (checkForStaleServerList oneTickPerNanosecond 500000
         (worldAt 600001000 7 (Inr 10) (Inl TransportException)) suspiciousDetector)
       = [RequestServerList (ServerId_of_parts 1 0)]
   \<and> raised (checkForStaleServerList oneTickPerNanosecond 500000
         (worldAt 600001000 7 (Inr 10) (Inl TransportException)) suspiciousDetector) = None
   \<and> staleServerListSuspected (detector (checkForStaleServerList oneTickPerNanosecond 500000
         (worldAt 600001000 7 (Inr 10) (Inl TransportException)) suspiciousDetector))"
proof -
  have s: "staleServerListSuspected suspiciousDetector"
    by (simp add: suspiciousDetector_def)
  have v: "\<not> staleServerListVersion suspiciousDetector < getVersion (worldAt 600001000 7 p c)" for p c
    by (simp add: suspiciousDetector_def worldAt_def)
  have t: "500000 * 1000 \<le> oneTickPerNanosecond
      (rdtsc (worldAt 600001000 7 p c) - staleServerListTimestamp suspiciousDetector)" for p c
    by (simp add: suspiciousDetector_def worldAt_def oneTickPerNanosecond_def)
  have ok: "requestServerList (worldAt 600001000 7 (Inr 10) (Inr ())) = Inr ()
      \<or> requestServerList (worldAt 600001000 7 (Inr 10) (Inr ())) = Inl TransportException"
    by (simp add: worldAt_def)
  have ko: "requestServerList (worldAt 600001000 7 (Inr 10) (Inl TransportException)) = Inr ()
      \<or> requestServerList (worldAt 600001000 7 (Inr 10) (Inl TransportException))
          = Inl TransportException"
    by (simp add: worldAt_def)
  show ?thesis
    using checkForStaleServerList_timeout [where toNs = oneTickPerNanosecond and usecs = 500000,
        OF s v t ok]
      checkForStaleServerList_timeout [where toNs = oneTickPerNanosecond and usecs = 500000,
        OF s v t ko]
    by (simp add: worldAt_def suspiciousDetector_def)
qed

text \<open>
  C2. In a run of \<open>pingRandomServer\<close> whose selected peer is valid and is not the detector's
  own id, \<open>hint_server_down(peer)\<close> is sent to the coordinator if and only if the ping
  raised a timeout or a transport error, and then exactly once, after the one ping; a
  transport error raised by the hint is swallowed, as the call returns normally; and when
  the peer's id is stale (\<open>ServerListException\<close>, from the locator lookup or from the ping)
  the round ends with no hint, at most the one ping, no exception and the detector
  unchanged.
\<close>

theorem pingRandomServer_hint:
  assumes "isValid (randomServer w)"
    and "\<not> ServerId_eq (randomServer w) (ourServerId d)"
  shows "(HintServerDown (randomServer w) \<in> set (sent (pingRandomServer w d))
            \<longleftrightarrow> getLocator w \<noteq> None
                \<and> (ping w = Inl TimeoutException \<or> ping w = Inl TransportException))
     \<and> sent (pingRandomServer w d)
         = (case getLocator w of
              None \<Rightarrow> []
            | Some locator \<Rightarrow>
                Ping locator #
                  (if ping w = Inl TimeoutException \<or> ping w = Inl TransportException
                   then [HintServerDown (randomServer w)] else []))
     \<and> (hintServerDown w = Inl TransportException \<longrightarrow> raised (pingRandomServer w d) = None)
     \<and> (getLocator w = None \<or> ping w = Inl ServerListException \<longrightarrow>
          HintServerDown (randomServer w) \<notin> set (sent (pingRandomServer w d))
          \<and> length (sent (pingRandomServer w d)) \<le> 1
          \<and> raised (pingRandomServer w d) = None
          \<and> detector (pingRandomServer w d) = d)"
proof -
  have list: "sent (pingRandomServer w d)
         = (case getLocator w of
              None \<Rightarrow> []
            | Some locator \<Rightarrow>
                Ping locator #
                  (if ping w = Inl TimeoutException \<or> ping w = Inl TransportException
                   then [HintServerDown (randomServer w)] else []))"
    using assms
    by (auto simp: pingRandomServer_def catchPing_def alertCoordinator_def Let_def
        split: option.splits sum.splits exn.splits)
  have swallow: "hintServerDown w = Inl TransportException \<Longrightarrow> raised (pingRandomServer w d) = None"
    using assms
    by (auto simp: pingRandomServer_def catchPing_def alertCoordinator_def Let_def
        split: option.splits sum.splits exn.splits)
  have stale: "getLocator w = None \<or> ping w = Inl ServerListException \<Longrightarrow>
      raised (pingRandomServer w d) = None \<and> detector (pingRandomServer w d) = d"
    using assms
    by (auto simp: pingRandomServer_def catchPing_def Let_def split: option.splits)
  show ?thesis
    using swallow stale by (auto simp: list split: option.splits)
qed

theorem pingRandomServer_hint_witness:
  "isValid (randomServer (worldAt 0 7 (Inl TimeoutException) (Inl TransportException)))
   \<and> \<not> ServerId_eq (randomServer (worldAt 0 7 (Inl TimeoutException) (Inl TransportException)))
         (ourServerId suspiciousDetector)
   \<and> sent (pingRandomServer (worldAt 0 7 (Inl TimeoutException) (Inl TransportException))
         suspiciousDetector)
       = [Ping ''mock:host=two'', HintServerDown (ServerId_of_parts 2 0)]
   \<and> raised (pingRandomServer (worldAt 0 7 (Inl TimeoutException) (Inl TransportException))
         suspiciousDetector) = None
   \<and> sent (pingRandomServer (worldAt 0 7 (Inl ServerListException) (Inr ())) suspiciousDetector)
       = [Ping ''mock:host=two'']"
proof -
  have v: "isValid (randomServer (worldAt 0 7 p c))" for p c
    by (simp add: worldAt_def isValid_of_parts)
  have two: "isValid (ServerId_of_parts 2 0)"
    by (simp add: isValid_of_parts)
  have differ: "serverId (ServerId_of_parts 2 0) \<noteq> serverId (ServerId_of_parts 1 0)"
    by (simp add: ServerId_of_parts_def)
  have n: "\<not> ServerId_eq (randomServer (worldAt 0 7 p c)) (ourServerId suspiciousDetector)" for p c
    by (simp add: worldAt_def suspiciousDetector_def ServerId_eq_def two differ)
  show ?thesis
    using v n pingRandomServer_hint [OF v n, of "Inl TimeoutException" "Inl TransportException"]
      pingRandomServer_hint [OF v n, of "Inl ServerListException" "Inr ()"]
    by (simp add: worldAt_def)
qed

text \<open>
  C3, as stated, fails: a request may have been sent earlier in the same suspicion
  episode. The detector suspects version 7 since tick 1000. A first check 600 ms later
  (timeout 500 ms) still reads version 7 and finds the coordinator unreachable: it sends
  \<open>request_server_list\<close> and, the call having raised a transport error, stays
  suspicious. The next check reads version 11 and clears the suspicion; one request was
  sent in that episode.
\<close>

theorem request_before_advance_counterexample:
  "staleServerListSuspected suspiciousDetector
   \<and> staleServerListSuspected (detector (checkForStaleServerList oneTickPerNanosecond 500000
         (worldAt 600001000 7 (Inr 10) (Inl TransportException)) suspiciousDetector))
   \<and> staleServerListVersion (detector (checkForStaleServerList oneTickPerNanosecond 500000
         (worldAt 600001000 7 (Inr 10) (Inl TransportException)) suspiciousDetector))
       < getVersion (worldAt 700001000 11 (Inr 11) (Inr ()))
   \<and> \<not> staleServerListSuspected (detector (checkRepeatedly oneTickPerNanosecond 500000
         [worldAt 600001000 7 (Inr 10) (Inl TransportException),
          worldAt 700001000 11 (Inr 11) (Inr ())] suspiciousDetector))
   \<and> sent (checkRepeatedly oneTickPerNanosecond 500000
         [worldAt 600001000 7 (Inr 10) (Inl TransportException),
          worldAt 700001000 11 (Inr 11) (Inr ())] suspiciousDetector)
       = [RequestServerList (ServerId_of_parts 1 0)]"
  by (simp add: checkForStaleServerList_def suspiciousDetector_def worldAt_def
      oneTickPerNanosecond_def)

text \<open>
  C3, amended. Take a suspicious detector. If the local version read by a call of
  \<open>checkForStaleServerList\<close> is strictly past the recorded one, then that call clears
  the suspicion and sends nothing; and if every earlier call of the episode (if any) was
  made before the timeout elapsed, then no RPC, hence no \<open>request_server_list\<close>, is sent
  to the coordinator by any call of the episode: not by the earlier ones, not by that
  one, and not by any later one, whatever the time and whatever the coordinator would
  answer.
\<close>

theorem checkForStaleServerList_version_advanced:
  assumes "staleServerListSuspected d"
    and "\<forall>p \<in> set pre. toNs (rdtsc p - staleServerListTimestamp d) < usecs * 1000"
    and "staleServerListVersion d < getVersion w"
  shows "sent (checkRepeatedly toNs usecs (pre @ w # post) d) = []
     \<and> raised (checkRepeatedly toNs usecs (pre @ w # post) d) = None
     \<and> detector (checkRepeatedly toNs usecs (pre @ w # post) d)
         = d\<lparr>staleServerListSuspected := False\<rparr>
     \<and> detector (checkForStaleServerList toNs usecs w d) = d\<lparr>staleServerListSuspected := False\<rparr>
     \<and> sent (checkForStaleServerList toNs usecs w d) = []"
proof -
  have run: "sent (checkRepeatedly toNs usecs (pre @ w # post) d) = []
     \<and> raised (checkRepeatedly toNs usecs (pre @ w # post) d) = None
     \<and> detector (checkRepeatedly toNs usecs (pre @ w # post) d)
         = d\<lparr>staleServerListSuspected := False\<rparr>"
    using assms(2)
  proof (induction pre)
    case Nil
    show ?case
      using checkRepeatedly_advanced [OF assms(1) assms(3)] by simp
  next
    case (Cons p pre)
    have within: "toNs (rdtsc p - staleServerListTimestamp d) < usecs * 1000"
      using Cons.prems by simp
    have ih: "sent (checkRepeatedly toNs usecs (pre @ w # post) d) = []
        \<and> raised (checkRepeatedly toNs usecs (pre @ w # post) d) = None
        \<and> detector (checkRepeatedly toNs usecs (pre @ w # post) d)
            = d\<lparr>staleServerListSuspected := False\<rparr>"
      using Cons.IH Cons.prems by simp
    show ?case
    proof (cases "staleServerListVersion d < getVersion p")
      case True
      show ?thesis
        using checkRepeatedly_advanced [OF assms(1) True, of toNs usecs "pre @ w # post"]
        by simp
    next
      case False
      have "checkForStaleServerList toNs usecs p d
              = \<lparr>detector = d, sent = [], logged = [], raised = None\<rparr>"
        by (rule checkForStaleServerList_waiting [where toNs = toNs and usecs = usecs,
              OF assms(1) False within])
      then show ?thesis using ih by simp
    qed
  qed
  show ?thesis
    using run checkForStaleServerList_advanced [OF assms(1) assms(3), of toNs usecs]
    by simp
qed

text \<open>
  The scenario of the specification: suspicion recorded at version 7; a first check 100 ms
  later still sees version 7; the next check sees version 11; a last check comes long
  after the timeout with the coordinator unreachable. Nothing is sent.
\<close>

theorem checkForStaleServerList_version_advanced_witness:
  "staleServerListSuspected suspiciousDetector
   \<and> staleServerListVersion suspiciousDetector < getVersion (worldAt 200001000 11 (Inr 11) (Inr ()))
   \<and> sent (checkRepeatedly oneTickPerNanosecond 500000
        ([worldAt 100001000 7 (Inr 10) (Inr ())] @ worldAt 200001000 11 (Inr 11) (Inr ())
           # [worldAt 900001000 11 (Inr 11) (Inl TransportException)]) suspiciousDetector) = []
   \<and> \<not> staleServerListSuspected (detector (checkRepeatedly oneTickPerNanosecond 500000
        ([worldAt 100001000 7 (Inr 10) (Inr ())] @ worldAt 200001000 11 (Inr 11) (Inr ())
           # [worldAt 900001000 11 (Inr 11) (Inl TransportException)]) suspiciousDetector))"
proof -
  have s: "staleServerListSuspected suspiciousDetector"
    by (simp add: suspiciousDetector_def)
  have p: "\<forall>p \<in> set [worldAt 100001000 7 (Inr 10) (Inr ())].
      oneTickPerNanosecond (rdtsc p - staleServerListTimestamp suspiciousDetector) < 500000 * 1000"
    by (simp add: suspiciousDetector_def worldAt_def oneTickPerNanosecond_def)
  have v: "staleServerListVersion suspiciousDetector
      < getVersion (worldAt 200001000 11 (Inr 11) (Inr ()))"
    by (simp add: suspiciousDetector_def worldAt_def)
  show ?thesis
    using s v checkForStaleServerList_version_advanced [where toNs = oneTickPerNanosecond
        and usecs = 500000 and post = "[worldAt 900001000 11 (Inr 11) (Inl TransportException)]",
        OF s p v]
    by simp
qed

section \<open>Properties of the ServerTracker\<close>

lemma slotIndex_of_parts: "slotIndex (ServerId_of_parts i g) = unat i"
  unfolding slotIndex_def ServerId_of_parts_def by (simp only: ServerId.simps index_of_parts)






lemmas run_tracker = consume_def getChange_def enqueueChange_def clearLastRemoved_def
  newTracker_def slotIndex_of_parts Let_def emptySlot_def

lemma oneMaster_eq:
  "oneMaster = \<lparr>serverList = [\<lparr>server = masterOne, pointer = None\<rparr>], changes = [],
      lastRemovedIndex = None, numberOfServers = 1, eventCallback = False, callbacksFired = 0\<rparr>"
  by (simp add: oneMaster_def run_tracker masterOne_def)

lemma mastersRemoved_eq:
  "mastersRemoved = \<lparr>serverList = [\<lparr>server = ServerDetails_default, pointer = None\<rparr>,
        \<lparr>server = masterTwo, pointer = None\<rparr>], changes = [],
      lastRemovedIndex = Some 1, numberOfServers = 0, eventCallback = False, callbacksFired = 0\<rparr>"
  by (simp add: mastersRemoved_def oneMaster_eq)
     (simp add: run_tracker masterOne_def masterTwo_def)





lemma lastRemovedIndex_enqueueChange:
  "lastRemovedIndex (enqueueChange entry event t) = lastRemovedIndex t"
  by (simp add: enqueueChange_def Let_def)

lemma lastRemovedIndex_setAnnotation:
  "setAnnotation sid p t = Inr t' \<Longrightarrow> lastRemovedIndex t' = lastRemovedIndex t"
  by (auto simp: setAnnotation_def split: if_splits)






lemma set_matching:
  "set (matching t wanted) =
     {detailsServerId (server (serverList t ! i)) | i.
        present t i \<and> wanted \<subseteq> detailsServices (server (serverList t ! i))}"
  by (auto simp: matching_def present_def)

text \<open>
  C5. For every service mask, every tracker and every number drawn from the random
  generator, \<open>getRandomServerIdWithService\<close> returns a value: the invalid server id when
  no currently present entry has a service mask that includes the wanted one, and
  otherwise the (valid) id of one of the present entries whose mask includes it.
\<close>

theorem getRandomServerIdWithService_result:
  "((\<nexists>i. present t i \<and> wanted \<subseteq> detailsServices (server (serverList t ! i))) \<longrightarrow>
       getRandomServerIdWithService random wanted t = ServerId_default
       \<and> \<not> isValid (getRandomServerIdWithService random wanted t))
   \<and> ((\<exists>i. present t i \<and> wanted \<subseteq> detailsServices (server (serverList t ! i))) \<longrightarrow>
       isValid (getRandomServerIdWithService random wanted t)
       \<and> (\<exists>i. present t i \<and> wanted \<subseteq> detailsServices (server (serverList t ! i))
              \<and> getRandomServerIdWithService random wanted t
                  = detailsServerId (server (serverList t ! i))))"
proof -
  have none: "(\<nexists>i. present t i \<and> wanted \<subseteq> detailsServices (server (serverList t ! i)))
      \<Longrightarrow> matching t wanted = []"
    using set_matching [of t wanted] by (cases "matching t wanted") auto
  have some: "(\<exists>i. present t i \<and> wanted \<subseteq> detailsServices (server (serverList t ! i)))
      \<Longrightarrow> matching t wanted \<noteq> []"
    using set_matching [of t wanted] by auto
  have pick: "matching t wanted \<noteq> [] \<Longrightarrow>
      getRandomServerIdWithService random wanted t \<in> set (matching t wanted)"
    by (simp add: getRandomServerIdWithService_def Let_def)
  have valid: "x \<in> set (matching t wanted) \<Longrightarrow> isValid x" for x
    by (auto simp: set_matching present_def)
  show ?thesis
  proof (intro conjI impI)
    assume n: "\<nexists>i. present t i \<and> wanted \<subseteq> detailsServices (server (serverList t ! i))"
    show "getRandomServerIdWithService random wanted t = ServerId_default"
      using none [OF n] by (simp add: getRandomServerIdWithService_def)
    then show "\<not> isValid (getRandomServerIdWithService random wanted t)"
      by (simp add: not_isValid_default)
  next
    assume e: "\<exists>i. present t i \<and> wanted \<subseteq> detailsServices (server (serverList t ! i))"
    have m: "getRandomServerIdWithService random wanted t \<in> set (matching t wanted)"
      using pick some [OF e] by simp
    show "isValid (getRandomServerIdWithService random wanted t)"
      using valid [OF m] .
    show "\<exists>i. present t i \<and> wanted \<subseteq> detailsServices (server (serverList t ! i))
              \<and> getRandomServerIdWithService random wanted t
                  = detailsServerId (server (serverList t ! i))"
      using m unfolding set_matching by blast
  qed
qed

text \<open>
  With one master consumed, asking for a master gives its id and asking for a backup
  gives the invalid id; once all masters have been removed, asking for a master gives an
  invalid id.
\<close>

theorem getRandomServerIdWithService_result_witness:
  "(\<exists>i. present oneMaster i
        \<and> {MASTER_SERVICE} \<subseteq> detailsServices (server (serverList oneMaster ! i)))
   \<and> getRandomServerIdWithService 7 {MASTER_SERVICE} oneMaster = ServerId_of_parts 0 1
   \<and> (\<nexists>i. present oneMaster i
        \<and> {BACKUP_SERVICE} \<subseteq> detailsServices (server (serverList oneMaster ! i)))
   \<and> getRandomServerIdWithService 7 {BACKUP_SERVICE} oneMaster = ServerId_default
   \<and> (\<nexists>i. present mastersRemoved i
        \<and> {MASTER_SERVICE} \<subseteq> detailsServices (server (serverList mastersRemoved ! i)))
   \<and> \<not> isValid (getRandomServerIdWithService 7 {MASTER_SERVICE} mastersRemoved)"
proof -
  have v: "isValid (ServerId_of_parts 0 1)"
    by (simp add: isValid_of_parts)
  have p0: "present oneMaster i \<longleftrightarrow> i = 0" for i
    using v by (auto simp: present_def oneMaster_eq masterOne_def)
  have m: "\<exists>i. present oneMaster i
        \<and> {MASTER_SERVICE} \<subseteq> detailsServices (server (serverList oneMaster ! i))"
    by (simp add: p0) (simp add: oneMaster_eq masterOne_def)
  have b: "\<nexists>i. present oneMaster i
        \<and> {BACKUP_SERVICE} \<subseteq> detailsServices (server (serverList oneMaster ! i))"
    by (simp add: p0) (simp add: oneMaster_eq masterOne_def)
  have gone: "\<not> present mastersRemoved i" for i
  proof (cases "i = 0")
    case True
    then show ?thesis
      using not_isValid_default
      by (simp add: present_def mastersRemoved_eq ServerDetails_default_def)
  next
    case False
    then show ?thesis
      by (auto simp: present_def mastersRemoved_eq)
  qed
  have r: "\<nexists>i. present mastersRemoved i
        \<and> {MASTER_SERVICE} \<subseteq> detailsServices (server (serverList mastersRemoved ! i))"
    by (simp add: gone)
  have only: "detailsServerId (server (serverList oneMaster ! i)) = ServerId_of_parts 0 1"
    if "present oneMaster i" for i
  proof -
    have "i = 0" using that by (simp only: p0)
    then show ?thesis by (simp add: oneMaster_eq masterOne_def)
  qed
  show ?thesis
    using m b r only
      getRandomServerIdWithService_result [of oneMaster "{MASTER_SERVICE}" 7]
      getRandomServerIdWithService_result [of oneMaster "{BACKUP_SERVICE}" 7]
      getRandomServerIdWithService_result [of mastersRemoved "{MASTER_SERVICE}" 7]
    by metis
qed




end
